theory Spec2Isabelle
  imports Complex_Main "HOL-Library.Char_ord" "HOL-Library.List_Lexorder" "HOL-Library.Product_Lexorder"
begin

section \<open>Data model\<close>

text \<open>
  The dashboard of \<^verbatim>\<open>app.py\<close> holds one pandas table of usage records. A cell of a
  pandas column may be missing (NaN / NaT), so every field is an option. Timestamps are
  instants counted as integers; durations are seconds. The float64 arithmetic of pandas
  is modelled by exact rational arithmetic together with the three special values that
  a division by zero or an empty mean produces.
\<close>

record usage_record =
  partner :: "string option"
  token :: "string option"
  package :: "string option"
  last_time_used :: "int option"
  last_time_foreground_service_used :: "int option"
  first_time_stamp :: "int option"
  last_time_stamp :: "int option"
  last_time_visible :: "int option"
  total_time_foreground_service_used :: "rat option"
  total_time_in_foreground :: "rat option"
  total_time_visible :: "rat option"
  hardware_id :: "string option"
  model :: "string option"
  os :: "string option"
  product :: "string option"
  brand :: "string option"

type_synonym table = "usage_record list"

datatype fnum = Fin rat | PInf | NInf | NaN

record app_metric =
  app_package :: string
  reach :: nat
  total_time :: fnum
  avg_time_per_session :: fnum
  avg_time_per_device :: fnum

section \<open>Column aggregates of pandas\<close>

text \<open>\<^verbatim>\<open>nunique\<close> counts the distinct values of a column and skips missing cells.\<close>

definition nunique :: "'a option list \<Rightarrow> nat" where
  "nunique xs = length (remdups (List.map_filter (\<lambda>x. x) xs))"

text \<open>\<^verbatim>\<open>sum\<close> skips missing cells; the sum of no value is 0.\<close>

definition col_sum :: "rat option list \<Rightarrow> fnum" where
  "col_sum xs = Fin (sum_list (List.map_filter (\<lambda>x. x) xs))"

text \<open>\<^verbatim>\<open>mean\<close> skips missing cells; the mean of no value is NaN.\<close>

definition col_mean :: "rat option list \<Rightarrow> fnum" where
  "col_mean xs =
     (let vs = List.map_filter (\<lambda>x. x) xs
      in if vs = [] then NaN else Fin (sum_list vs / of_nat (length vs)))"

text \<open>
  Division of a float column by an integer column (\<^verbatim>\<open>total_time / reach\<close>): pandas
  does not raise on a zero divisor, the quotient is an infinity or NaN.
\<close>

fun fdiv_count :: "fnum \<Rightarrow> nat \<Rightarrow> fnum" where
  "fdiv_count (Fin x) n =
     (if n = 0 then (if 0 < x then PInf else if x < 0 then NInf else NaN)
      else Fin (x / of_nat n))"
| "fdiv_count PInf n = PInf"
| "fdiv_count NInf n = NInf"
| "fdiv_count NaN n = NaN"

text \<open>Division of a float column by a positive constant (\<^verbatim>\<open>/ 3600\<close>).\<close>

fun fdiv_const :: "fnum \<Rightarrow> rat \<Rightarrow> fnum" where
  "fdiv_const (Fin x) c = Fin (x / c)"
| "fdiv_const PInf c = PInf"
| "fdiv_const NInf c = NInf"
| "fdiv_const NaN c = NaN"

text \<open>
  \<^verbatim>\<open>round(2)\<close> scales by 100, rounds to the nearest integer with ties to the even
  one, and scales back; infinities and NaN stay as they are.
\<close>

definition round_half_even :: "rat \<Rightarrow> int" where
  "round_half_even y =
     (let f = \<lfloor>y\<rfloor>; d = y - of_int f
      in if d < 1 / 2 then f else if 1 / 2 < d then f + 1
         else if even f then f else f + 1)"

definition round2 :: "rat \<Rightarrow> rat" where
  "round2 x = of_int (round_half_even (x * 100)) / 100"

fun fround2 :: "fnum \<Rightarrow> fnum" where
  "fround2 (Fin x) = Fin (round2 x)"
| "fround2 PInf = PInf"
| "fround2 NInf = NInf"
| "fround2 NaN = NaN"

section \<open>\<^verbatim>\<open>calculate_app_metrics\<close>\<close>

text \<open>
  \<^verbatim>\<open>df.groupby('package')\<close>: the group keys are the distinct packages of the table in
  sorted order, rows whose package is missing belong to no group.
\<close>

definition group_keys :: "table \<Rightarrow> string list" where
  "group_keys df = sort (remdups (List.map_filter package df))"

definition group_rows :: "table \<Rightarrow> string \<Rightarrow> table" where
  "group_rows df k = filter (\<lambda>r. package r = Some k) df"

text \<open>
  \<^verbatim>\<open>.agg({'hardware_id': 'nunique', 'total_time_in_foreground': ['sum', 'mean']})\<close>
  followed by \<^verbatim>\<open>reset_index()\<close> and the renaming of the four columns.
\<close>

definition agg_group :: "table \<Rightarrow> string \<Rightarrow> string \<times> nat \<times> fnum \<times> fnum" where
  "agg_group df k =
     (let g = group_rows df k
      in (k, nunique (map hardware_id g),
             col_sum (map total_time_in_foreground g),
             col_mean (map total_time_in_foreground g)))"

definition groupby_agg :: "table \<Rightarrow> (string \<times> nat \<times> fnum \<times> fnum) list" where
  "groupby_agg df = map (agg_group df) (group_keys df)"

text \<open>\<^verbatim>\<open>metrics['avg_time_per_device'] = metrics['total_time'] / metrics['reach']\<close>\<close>

fun add_avg_time_per_device :: "string \<times> nat \<times> fnum \<times> fnum \<Rightarrow> app_metric" where
  "add_avg_time_per_device (k, n, s, m) =
     \<lparr>app_package = k, reach = n, total_time = s, avg_time_per_session = m,
      avg_time_per_device = fdiv_count s n\<rparr>"

text \<open>The loop that divides the three time columns by 3600.\<close>

definition to_hours :: "app_metric \<Rightarrow> app_metric" where
  "to_hours m =
     m\<lparr>total_time := fdiv_const (total_time m) 3600,
       avg_time_per_session := fdiv_const (avg_time_per_session m) 3600,
       avg_time_per_device := fdiv_const (avg_time_per_device m) 3600\<rparr>"

text \<open>\<^verbatim>\<open>metrics.round(2)\<close> rounds the float columns; the integer column reach is kept.\<close>

definition round_metrics :: "app_metric \<Rightarrow> app_metric" where
  "round_metrics m =
     m\<lparr>total_time := fround2 (total_time m),
       avg_time_per_session := fround2 (avg_time_per_session m),
       avg_time_per_device := fround2 (avg_time_per_device m)\<rparr>"

text \<open>
  \<^verbatim>\<open>sort_values('reach', ascending=False)\<close>. The order pandas gives to rows of equal
  reach is not fixed by its default sorting algorithm; the model keeps them in group order,
  and no statement below depends on it.
\<close>

definition sort_by_reach_desc :: "app_metric list \<Rightarrow> app_metric list" where
  "sort_by_reach_desc ms = sort_key (\<lambda>m. - int (reach m)) ms"

definition metric_row :: "string \<times> nat \<times> fnum \<times> fnum \<Rightarrow> app_metric" where
  "metric_row t = round_metrics (to_hours (add_avg_time_per_device t))"

definition calculate_app_metrics :: "table \<Rightarrow> app_metric list" where
  "calculate_app_metrics df = sort_by_reach_desc (map metric_row (groupby_agg df))"

section \<open>The outside world of \<^verbatim>\<open>fetch_data\<close>\<close>

text \<open>
  A cell as \<^verbatim>\<open>pd.read_csv\<close> delivers it: missing, a number, or text. A frame is the
  header row and the data rows; pandas pads a short row with missing cells.
\<close>

datatype cell = NA | Num rat | Txt string

record frame =
  columns :: "string list"
  rows :: "cell list list"

record response =
  status_code :: int
  headers :: "(string \<times> string) list"
  resp_text :: string

text \<open>Python exceptions that the modelled code can meet, as values.\<close>

datatype exn =
    RequestException string
  | HTTPError int
  | ParserError string
  | KeyError string
  | IndexError

text \<open>
  What the program does not contain is a parameter: the process environment, the two
  entries of \<^verbatim>\<open>CLICKHOUSE_CONFIG\<close> (module \<^verbatim>\<open>config\<close>), the HTTP call of
  \<^verbatim>\<open>requests.post\<close> (by url, database and query text), the CSV parser, and the
  conversions of one cell by \<^verbatim>\<open>pd.to_datetime\<close>, \<^verbatim>\<open>pd.to_numeric\<close> (on text) and
  \<^verbatim>\<open>astype(str)\<close>. With \<^verbatim>\<open>errors='coerce'\<close> a conversion that fails gives a missing
  cell, which is \<open>None\<close> here.
\<close>

record env =
  getenv :: "string \<Rightarrow> string option"
  config_url :: string
  config_database :: string
  post :: "string \<Rightarrow> string \<Rightarrow> string \<Rightarrow> exn + response"
  read_csv :: "string \<Rightarrow> exn + frame"
  to_datetime :: "cell \<Rightarrow> int option"
  parse_number :: "string \<Rightarrow> rat option"
  astype_str :: "cell \<Rightarrow> string option"

text \<open>What the page shows: the calls of \<^verbatim>\<open>st.write\<close>, \<^verbatim>\<open>st.error\<close>, \<^verbatim>\<open>st.success\<close>.\<close>

datatype shown = Sh_int int | Sh_dict "(string \<times> string) list" | Sh_str string

datatype ui =
    St_write string shown
  | St_error_exn exn
  | St_error string
  | St_success nat

text \<open>\<^verbatim>\<open>st.session_state\<close>: the debug flag is absent until the sidebar has set it.\<close>

record session_state =
  data_loaded :: bool
  df :: "table option"
  debug_mode :: "bool option"

section \<open>\<^verbatim>\<open>fetch_data\<close>\<close>

text \<open>Python's \<^verbatim>\<open>os.getenv(name) or default\<close>: an unset or empty variable gives the default.\<close>

definition or_default :: "string option \<Rightarrow> string \<Rightarrow> string" where
  "or_default v d = (case v of None \<Rightarrow> d | Some s \<Rightarrow> if s = [] then d else s)"

definition query :: "string \<Rightarrow> string \<Rightarrow> string" where
  "query start_date end_date =
     concat (map (\<lambda>l. CHR 0x0A # l)
       [''    SELECT '',
        ''        partner,'',
        ''        token,'',
        ''        package,'',
        ''        last_time_used,'',
        ''        last_time_foreground_service_used,'',
        ''        first_time_stamp,'',
        ''        last_time_stamp,'',
        ''        last_time_visible,'',
        ''        total_time_foreground_service_used,'',
        ''        total_time_in_foreground,'',
        ''        total_time_visible,'',
        ''        device['' @ [CHR 0x27] @ ''hardware_id'' @ [CHR 0x27] @ ''] as hardware_id,'',
        ''        device['' @ [CHR 0x27] @ ''model'' @ [CHR 0x27] @ ''] as model,'',
        ''        device['' @ [CHR 0x27] @ ''os'' @ [CHR 0x27] @ ''] as os,'',
        ''        device['' @ [CHR 0x27] @ ''product'' @ [CHR 0x27] @ ''] as product,'',
        ''        device['' @ [CHR 0x27] @ ''brand'' @ [CHR 0x27] @ ''] as brand'',
        ''    FROM device_usage_stat'',
        ''    WHERE last_time_used BETWEEN '' @ [CHR 0x27] @ start_date @ [CHR 0x27]
           @ '' AND '' @ [CHR 0x27] @ end_date @ [CHR 0x27],
        ''    FORMAT CSVWithNames'',
        ''    ''])"

text \<open>The call of \<^verbatim>\<open>requests.post\<close> with the arguments the source gives it.\<close>

definition send_query :: "env \<Rightarrow> string \<Rightarrow> string \<Rightarrow> exn + response" where
  "send_query e start_date end_date =
     post e (or_default (getenv e ''CLICKHOUSE_URL'') (config_url e))
            (or_default (getenv e ''CLICKHOUSE_DATABASE'') (config_database e))
            (query start_date end_date)"

text \<open>The three \<^verbatim>\<open>st.write\<close> calls of debug mode.\<close>

definition debug_output :: "response \<Rightarrow> ui list" where
  "debug_output r =
     [St_write ''Response Status Code:'' (Sh_int (status_code r)),
      St_write ''Response Headers:'' (Sh_dict (headers r)),
      St_write ''Response Preview:'' (Sh_str (take 500 (resp_text r)))]"

text \<open>\<^verbatim>\<open>response.raise_for_status()\<close> raises for the client and server error codes.\<close>

definition raise_for_status :: "response \<Rightarrow> exn + unit" where
  "raise_for_status r =
     (if 400 \<le> status_code r \<and> status_code r < 600 then Inl (HTTPError (status_code r))
      else Inr ())"

definition timestamp_cols :: "string list" where
  "timestamp_cols = [''last_time_used'', ''last_time_foreground_service_used'',
     ''first_time_stamp'', ''last_time_stamp'', ''last_time_visible'']"

definition numeric_cols :: "string list" where
  "numeric_cols = [''total_time_foreground_service_used'', ''total_time_in_foreground'',
     ''total_time_visible'']"

definition string_cols :: "string list" where
  "string_cols = [''partner'', ''token'', ''package'', ''hardware_id'', ''model'', ''os'',
     ''product'', ''brand'']"

text \<open>
  \<^verbatim>\<open>df[col]\<close> raises KeyError for a column the frame does not have. The three loops
  read the columns in this order, so the first one that is absent is the one reported.
\<close>

fun check_columns :: "string list \<Rightarrow> string list \<Rightarrow> exn + unit" where
  "check_columns present [] = Inr ()"
| "check_columns present (c # cs) =
     (if c \<in> set present then check_columns present cs else Inl (KeyError c))"

fun col_index :: "string list \<Rightarrow> string \<Rightarrow> nat option" where
  "col_index [] c = None"
| "col_index (x # xs) c = (if x = c then Some 0 else map_option Suc (col_index xs c))"

definition cell_of :: "string list \<Rightarrow> cell list \<Rightarrow> string \<Rightarrow> cell" where
  "cell_of cols row c =
     (case col_index cols c of
        None \<Rightarrow> NA
      | Some i \<Rightarrow> if i < length row then row ! i else NA)"

text \<open>\<^verbatim>\<open>pd.to_numeric(..., errors='coerce')\<close> on one cell.\<close>

definition to_numeric :: "env \<Rightarrow> cell \<Rightarrow> rat option" where
  "to_numeric e c = (case c of NA \<Rightarrow> None | Num x \<Rightarrow> Some x | Txt s \<Rightarrow> parse_number e s)"

text \<open>
  One row after the three conversion loops. Each loop replaces a column by its converted
  self and the sixteen names are distinct, so every converted cell comes from the cell
  that the parser delivered.
\<close>

definition convert_row :: "env \<Rightarrow> string list \<Rightarrow> cell list \<Rightarrow> usage_record" where
  "convert_row e cols row =
     \<lparr>partner = astype_str e (cell_of cols row ''partner''),
      token = astype_str e (cell_of cols row ''token''),
      package = astype_str e (cell_of cols row ''package''),
      last_time_used = to_datetime e (cell_of cols row ''last_time_used''),
      last_time_foreground_service_used =
        to_datetime e (cell_of cols row ''last_time_foreground_service_used''),
      first_time_stamp = to_datetime e (cell_of cols row ''first_time_stamp''),
      last_time_stamp = to_datetime e (cell_of cols row ''last_time_stamp''),
      last_time_visible = to_datetime e (cell_of cols row ''last_time_visible''),
      total_time_foreground_service_used =
        to_numeric e (cell_of cols row ''total_time_foreground_service_used''),
      total_time_in_foreground = to_numeric e (cell_of cols row ''total_time_in_foreground''),
      total_time_visible = to_numeric e (cell_of cols row ''total_time_visible''),
      hardware_id = astype_str e (cell_of cols row ''hardware_id''),
      model = astype_str e (cell_of cols row ''model''),
      os = astype_str e (cell_of cols row ''os''),
      product = astype_str e (cell_of cols row ''product''),
      brand = astype_str e (cell_of cols row ''brand'')\<rparr>"

text \<open>
  The body of the \<^verbatim>\<open>try\<close> block: what it has written to the page so far, and either
  the exception that left it or the table it returns.
\<close>

definition try_body ::
  "env \<Rightarrow> session_state \<Rightarrow> string \<Rightarrow> string \<Rightarrow> ui list \<times> (exn + table)" where
  "try_body e ss start_date end_date =
     (case send_query e start_date end_date of
        Inl x \<Rightarrow> ([], Inl x)
      | Inr r \<Rightarrow>
          let out = (if debug_mode ss = Some True then debug_output r else [])
          in case raise_for_status r of
               Inl x \<Rightarrow> (out, Inl x)
             | Inr _ \<Rightarrow>
                 (case read_csv e (resp_text r) of
                    Inl x \<Rightarrow> (out, Inl x)
                  | Inr fr \<Rightarrow>
                      (case check_columns (columns fr)
                              (timestamp_cols @ numeric_cols @ string_cols) of
                         Inl x \<Rightarrow> (out, Inl x)
                       | Inr _ \<Rightarrow> (out, Inr (map (convert_row e (columns fr)) (rows fr))))))"

text \<open>
  \<^verbatim>\<open>except Exception as e: st.error(f"Error: {str(e)}"); return None\<close> around the body.
\<close>

definition fetch_data ::
  "env \<Rightarrow> session_state \<Rightarrow> string \<Rightarrow> string \<Rightarrow> table option \<times> ui list" where
  "fetch_data e ss start_date end_date =
     (case try_body e ss start_date end_date of
        (out, Inl x) \<Rightarrow> (None, out @ [St_error_exn x])
      | (out, Inr t) \<Rightarrow> (Some t, out))"

section \<open>The Load Data button\<close>

definition load_data ::
  "env \<Rightarrow> session_state \<Rightarrow> string \<Rightarrow> string \<Rightarrow> session_state \<times> ui list" where
  "load_data e ss start_date end_date =
     (case fetch_data e ss start_date end_date of
        (Some t, out) \<Rightarrow>
          if t \<noteq> [] then
            (ss\<lparr>data_loaded := True, df := Some t\<rparr>, out @ [St_success (length t)])
          else (ss\<lparr>data_loaded := False\<rparr>, out @ [St_error ''Failed to load data''])
      | (None, out) \<Rightarrow> (ss\<lparr>data_loaded := False\<rparr>, out @ [St_error ''Failed to load data'']))"

section \<open>The dashboard below the button\<close>

text \<open>
  \<^verbatim>\<open>df[df['partner'].isin(selected_partners) & df['brand'].isin(selected_brands)]\<close>;
  the selections are the values the two multiselect widgets return.
\<close>

definition apply_filters :: "table \<Rightarrow> string option list \<Rightarrow> string option list \<Rightarrow> table" where
  "apply_filters t selected_partners selected_brands =
     filter (\<lambda>r. partner r \<in> set selected_partners \<and> brand r \<in> set selected_brands) t"

text \<open>\<^verbatim>\<open>.iloc[0]\<close> raises IndexError on a table without rows.\<close>

definition iloc0 :: "'a list \<Rightarrow> exn + 'a" where
  "iloc0 xs = (case xs of [] \<Rightarrow> Inl IndexError | x # _ \<Rightarrow> Inr x)"

text \<open>
  \<^verbatim>\<open>sort_values('avg_time_per_device', ascending=False)\<close>: largest first, NaN last.
\<close>

fun desc_key :: "fnum \<Rightarrow> nat \<times> rat" where
  "desc_key PInf = (0, 0)"
| "desc_key (Fin x) = (1, - x)"
| "desc_key NInf = (2, 0)"
| "desc_key NaN = (3, 0)"

definition sort_by_avg_time_per_device_desc :: "app_metric list \<Rightarrow> app_metric list" where
  "sort_by_avg_time_per_device_desc ms = sort_key (\<lambda>m. desc_key (avg_time_per_device m)) ms"

text \<open>Quick Insights: \<^verbatim>\<open>top_app\<close> and \<^verbatim>\<open>most_engaged_app\<close>.\<close>

definition quick_insights :: "app_metric list \<Rightarrow> exn + app_metric \<times> app_metric" where
  "quick_insights app_metrics =
     (case iloc0 app_metrics of
        Inl x \<Rightarrow> Inl x
      | Inr top_app \<Rightarrow>
          (case iloc0 (sort_by_avg_time_per_device_desc app_metrics) of
             Inl x \<Rightarrow> Inl x
           | Inr most_engaged_app \<Rightarrow> Inr (top_app, most_engaged_app)))"

text \<open>
  One run of the page below the button: nothing but the welcome text unless data is
  loaded; otherwise the filters, the metrics and the quick insights. The widgets and
  charts in between belong to the presentation libraries and are not modelled. An
  \<open>Inl\<close> is an exception that no handler of the program catches.
\<close>

definition dashboard ::
  "session_state \<Rightarrow> string option list \<Rightarrow> string option list
     \<Rightarrow> exn + (app_metric list \<times> app_metric \<times> app_metric) option" where
  "dashboard ss selected_partners selected_brands =
     (case df ss of
        Some t \<Rightarrow>
          if data_loaded ss then
            (let filtered_df = apply_filters t selected_partners selected_brands;
                 app_metrics = calculate_app_metrics filtered_df
             in case quick_insights app_metrics of
                  Inl x \<Rightarrow> Inl x
                | Inr (top_app, most_engaged_app) \<Rightarrow>
                    Inr (Some (app_metrics, top_app, most_engaged_app)))
          else Inr None
      | None \<Rightarrow> Inr None)"

section \<open>Notions of the specification\<close>

text \<open>The distinct devices seen in the rows of a package.\<close>

definition package_devices :: "table \<Rightarrow> string \<Rightarrow> string set" where
  "package_devices t p = {h. \<exists>r \<in> set t. package r = Some p \<and> hardware_id r = Some h}"

text \<open>The foreground times that the rows of a package carry, missing ones left out.\<close>

definition package_durations :: "table \<Rightarrow> string \<Rightarrow> rat list" where
  "package_durations t p =
     List.map_filter total_time_in_foreground (filter (\<lambda>r. package r = Some p) t)"

text \<open>The one row of a metrics table that belongs to a package.\<close>

definition metric_of :: "app_metric list \<Rightarrow> string \<Rightarrow> app_metric \<Rightarrow> bool" where
  "metric_of ms p m \<longleftrightarrow> filter (\<lambda>x. app_package x = p) ms = [m]"

text \<open>
  The three ways a fetch fails: the request raises, the response has a status that
  \<^verbatim>\<open>raise_for_status\<close> rejects, or the parser rejects the body.
\<close>

definition transport_failure :: "env \<Rightarrow> string \<Rightarrow> string \<Rightarrow> bool" where
  "transport_failure e start_date end_date \<longleftrightarrow>
     (\<exists>x. send_query e start_date end_date = Inl x)"

definition status_failure :: "env \<Rightarrow> string \<Rightarrow> string \<Rightarrow> bool" where
  "status_failure e start_date end_date \<longleftrightarrow>
     (\<exists>r. send_query e start_date end_date = Inr r
          \<and> 400 \<le> status_code r \<and> status_code r < 600)"

definition parse_failure :: "env \<Rightarrow> string \<Rightarrow> string \<Rightarrow> bool" where
  "parse_failure e start_date end_date \<longleftrightarrow>
     (\<exists>r x. send_query e start_date end_date = Inr r \<and> read_csv e (resp_text r) = Inl x)"

text \<open>
  The cell of a converted row in one of the three duration columns, by column name
  (\<^verbatim>\<open>df[col]\<close> for \<^verbatim>\<open>col\<close> in \<^verbatim>\<open>numeric_cols\<close>).
\<close>

definition numeric_field :: "string \<Rightarrow> usage_record \<Rightarrow> rat option" where
  "numeric_field c r =
     (if c = ''total_time_foreground_service_used'' then total_time_foreground_service_used r
      else if c = ''total_time_in_foreground'' then total_time_in_foreground r
      else if c = ''total_time_visible'' then total_time_visible r
      else None)"

text \<open>A table without its row number \<open>i\<close>.\<close>

definition without_row :: "nat \<Rightarrow> table \<Rightarrow> table" where
  "without_row i t = take i t @ drop (Suc i) t"

text \<open>
  Example inputs. The example environment has no variables set, answers every request
  with the given outcome and parses every body to the given outcome; no text parses as a
  number or a date, and text cells keep their text.
\<close>

definition example_env :: "exn + response \<Rightarrow> exn + frame \<Rightarrow> env" where
  "example_env http parsed =
     \<lparr>getenv = (\<lambda>_. None), config_url = ''http://localhost:8123'',
      config_database = ''default'', post = (\<lambda>_ _ _. http), read_csv = (\<lambda>_. parsed),
      to_datetime = (\<lambda>_. None), parse_number = (\<lambda>_. None),
      astype_str = (\<lambda>c. case c of Txt s \<Rightarrow> Some s | _ \<Rightarrow> Some ''nan'')\<rparr>"

definition example_response :: "int \<Rightarrow> response" where
  "example_response code = \<lparr>status_code = code, headers = [], resp_text = []\<rparr>"

definition example_columns :: "string list" where
  "example_columns =
     [''partner'', ''token'', ''package'', ''last_time_used'',
      ''last_time_foreground_service_used'', ''first_time_stamp'', ''last_time_stamp'',
      ''last_time_visible'', ''total_time_foreground_service_used'',
      ''total_time_in_foreground'', ''total_time_visible'', ''hardware_id'', ''model'',
      ''os'', ''product'', ''brand'']"

definition example_frame :: "cell list list \<Rightarrow> frame" where
  "example_frame rs = \<lparr>columns = example_columns, rows = rs\<rparr>"

definition example_cells :: "cell list" where
  "example_cells =
     [Txt ''p1'', NA, Txt ''A'', NA, NA, NA, NA, NA, NA, Txt ''abc'', NA, Txt ''d1'', NA, NA,
      NA, Txt ''b1'']"

definition example_session :: session_state where
  "example_session = \<lparr>data_loaded = False, df = None, debug_mode = None\<rparr>"

text \<open>A row whose cells are all missing, to build example tables from.\<close>

definition blank_row :: usage_record where
  "blank_row =
     \<lparr>partner = None, token = None, package = None, last_time_used = None,
      last_time_foreground_service_used = None, first_time_stamp = None,
      last_time_stamp = None, last_time_visible = None,
      total_time_foreground_service_used = None, total_time_in_foreground = None,
      total_time_visible = None, hardware_id = None, model = None, os = None,
      product = None, brand = None\<rparr>"


section \<open>Groups and their aggregates: auxiliary facts\<close>

lemma map_filter_id_map: "List.map_filter (\<lambda>x. x) (map f xs) = List.map_filter f xs"
  by (induction xs) (simp_all add: List.map_filter_simps split: option.splits)

lemma set_map_filter: "set (List.map_filter f xs) = {y. \<exists>x \<in> set xs. f x = Some y}"
  by (induction xs) (auto simp: List.map_filter_simps split: option.splits)

lemma set_group_keys: "set (group_keys t) = {k. Some k \<in> package ` set t}"
proof -
  have "(\<exists>r \<in> set t. package r = Some k) \<longleftrightarrow> Some k \<in> package ` set t" for k
    by force
  then show ?thesis
    by (simp add: group_keys_def set_map_filter)
qed

lemma distinct_group_keys: "distinct (group_keys t)"
  by (simp add: group_keys_def)

lemma filter_eq_distinct:
  "distinct ks \<Longrightarrow> k \<in> set ks \<Longrightarrow> filter (\<lambda>x. x = k) ks = [k]"
  by (induction ks) (auto simp: filter_empty_conv)

lemma app_package_metric_row: "app_package (metric_row (k, n, s, m)) = k"
  by (simp add: metric_row_def round_metrics_def to_hours_def)

lemma set_calculate_app_metrics:
  "set (calculate_app_metrics t) = (\<lambda>k. metric_row (agg_group t k)) ` set (group_keys t)"
  by (simp add: calculate_app_metrics_def sort_by_reach_desc_def groupby_agg_def image_image)

lemma metric_of_package:
  assumes "Some p \<in> package ` set t"
  shows "metric_of (calculate_app_metrics t) p (metric_row (agg_group t p))"
proof -
  have in_keys: "p \<in> set (group_keys t)" using assms by (simp add: set_group_keys)
  have name: "\<And>k. app_package (metric_row (agg_group t k)) = k"
    by (simp add: agg_group_def Let_def app_package_metric_row)
  have "filter (\<lambda>m. app_package m = p) (map metric_row (groupby_agg t))
        = map (\<lambda>k. metric_row (agg_group t k)) (filter (\<lambda>k. k = p) (group_keys t))"
    by (simp add: groupby_agg_def filter_map comp_def name)
  also have "\<dots> = [metric_row (agg_group t p)]"
    by (simp add: filter_eq_distinct [OF distinct_group_keys in_keys])
  finally show ?thesis
    by (simp add: metric_of_def calculate_app_metrics_def sort_by_reach_desc_def filter_sort)
qed

lemma nunique_card: "nunique (map f xs) = card {h. \<exists>r \<in> set xs. f r = Some h}"
  by (simp add: nunique_def map_filter_id_map length_remdups_card_conv set_map_filter)

lemma group_devices:
  "{h. \<exists>r \<in> set (group_rows t p). hardware_id r = Some h} = package_devices t p"
  by (auto simp: group_rows_def package_devices_def)

lemma finite_package_devices: "finite (package_devices t p)"
proof -
  have "package_devices t p = set (List.map_filter hardware_id (group_rows t p))"
    by (simp add: set_map_filter group_devices)
  then show ?thesis by simp
qed

lemma nunique_group: "nunique (map hardware_id (group_rows t p)) = card (package_devices t p)"
  unfolding nunique_card group_devices ..

lemma sum_group:
  "col_sum (map total_time_in_foreground (group_rows t p)) = Fin (sum_list (package_durations t p))"
  by (simp add: col_sum_def map_filter_id_map package_durations_def group_rows_def)

lemma agg_group_alt:
  "agg_group t p = (p, card (package_devices t p), Fin (sum_list (package_durations t p)),
                 col_mean (map total_time_in_foreground (group_rows t p)))"
  by (simp add: agg_group_def Let_def nunique_group sum_group)

lemma reach_metric_row: "reach (metric_row (agg_group t p)) = card (package_devices t p)"
  by (simp add: metric_row_def round_metrics_def to_hours_def agg_group_alt)

lemma total_time_metric_row:
  "total_time (metric_row (agg_group t p)) = Fin (round2 (sum_list (package_durations t p) / 3600))"
  by (simp add: metric_row_def round_metrics_def to_hours_def agg_group_def Let_def col_sum_def
      map_filter_id_map package_durations_def group_rows_def)

lemma avg_session_metric_row:
  "avg_time_per_session (metric_row (agg_group t p)) =
     (if package_durations t p = [] then NaN
      else Fin (round2 (sum_list (package_durations t p)
                         / of_nat (length (package_durations t p)) / 3600)))"
  by (simp add: metric_row_def round_metrics_def to_hours_def agg_group_def Let_def col_mean_def
      map_filter_id_map package_durations_def group_rows_def Let_def)

lemma avg_device_metric_row:
  "avg_time_per_device (metric_row (agg_group t p)) =
     (if card (package_devices t p) = 0
      then (if 0 < sum_list (package_durations t p) then PInf
            else if sum_list (package_durations t p) < 0 then NInf else NaN)
      else Fin (round2 (sum_list (package_durations t p)
                         / of_nat (card (package_devices t p)) / 3600)))"
  by (simp add: metric_row_def round_metrics_def to_hours_def agg_group_alt)

section \<open>Claims on \<^verbatim>\<open>calculate_app_metrics\<close>\<close>



lemma no_devices:
  assumes "\<forall>r \<in> set t. package r = Some p \<longrightarrow> hardware_id r = None"
  shows "package_devices t p = {}"
  using assms by (auto simp: package_devices_def)

text \<open>
  Claim C2. When every row of a package has a missing device id, the package's row has
  reach 0 and its time per device is the quotient of the summed time by zero, without any
  special case: plus infinity for a positive sum, minus infinity for a negative one, NaN
  for the sum 0.
\<close>

theorem reach_zero_when_every_hardware_id_missing:
  assumes "Some p \<in> package ` set t"
    and "\<forall>r \<in> set t. package r = Some p \<longrightarrow> hardware_id r = None"
  shows "\<exists>m. metric_of (calculate_app_metrics t) p m
           \<and> reach m = 0
           \<and> avg_time_per_device m =
               (if 0 < sum_list (package_durations t p) then PInf
                else if sum_list (package_durations t p) < 0 then NInf else NaN)
           \<and> avg_time_per_device m \<in> {PInf, NInf, NaN}"
proof -
  let ?m = "metric_row (agg_group t p)"
  have none: "card (package_devices t p) = 0"
    by (simp add: no_devices [OF assms(2)])
  have "metric_of (calculate_app_metrics t) p ?m"
    by (rule metric_of_package [OF assms(1)])
  moreover have "reach ?m = 0"
    by (simp add: reach_metric_row none)
  moreover have "avg_time_per_device ?m =
               (if 0 < sum_list (package_durations t p) then PInf
                else if sum_list (package_durations t p) < 0 then NInf else NaN)"
    by (simp add: avg_device_metric_row none)
  moreover from this have "avg_time_per_device ?m \<in> {PInf, NInf, NaN}"
    by simp
  ultimately show ?thesis by blast
qed

theorem reach_zero_when_every_hardware_id_missing_witness:
  "Some ''B'' \<in> package ` set [blank_row\<lparr>package := Some ''B'', total_time_in_foreground := Some 3600\<rparr>]
   \<and> hardware_id (blank_row\<lparr>package := Some ''B'', total_time_in_foreground := Some 3600\<rparr>) = None
   \<and> (\<exists>m. metric_of (calculate_app_metrics
               [blank_row\<lparr>package := Some ''B'', total_time_in_foreground := Some 3600\<rparr>]) ''B'' m
           \<and> reach m = 0 \<and> avg_time_per_device m = PInf)"
proof -
  let ?t = "[blank_row\<lparr>package := Some ''B'', total_time_in_foreground := Some 3600\<rparr>]"
  have h1: "Some ''B'' \<in> package ` set ?t" by simp
  have h2: "\<forall>r \<in> set ?t. package r = Some ''B'' \<longrightarrow> hardware_id r = None"
    by (simp add: blank_row_def)
  have s: "sum_list (package_durations ?t ''B'') = 3600"
    by (simp add: package_durations_def List.map_filter_simps)
  from reach_zero_when_every_hardware_id_missing [OF h1 h2]
  obtain m where "metric_of (calculate_app_metrics ?t) ''B'' m" "reach m = 0"
    "avg_time_per_device m = PInf"
    unfolding s by auto
  moreover have "hardware_id (blank_row\<lparr>package := Some ''B'',
      total_time_in_foreground := Some 3600\<rparr>) = None"
    by (simp add: blank_row_def)
  ultimately show ?thesis using h1 by blast
qed

lemma package_devices_mono:
  "package_devices (apply_filters t sp sb) p \<subseteq> package_devices t p"
  by (auto simp: package_devices_def apply_filters_def)

text \<open>
  Claim C6. For every table and every selection of partners and brands, each row of the
  metrics of the filtered table has a reach no larger than the reach of the same package
  in the metrics of the unfiltered table.
\<close>

theorem filtered_reach_le_unfiltered:
  assumes "m \<in> set (calculate_app_metrics (apply_filters t selected_partners selected_brands))"
  shows "\<exists>m0. metric_of (calculate_app_metrics t) (app_package m) m0 \<and> reach m \<le> reach m0"
proof -
  let ?f = "apply_filters t selected_partners selected_brands"
  from assms obtain k where k: "k \<in> set (group_keys ?f)" and m: "m = metric_row (agg_group ?f k)"
    by (auto simp: set_calculate_app_metrics)
  have name: "app_package m = k"
    by (simp add: m agg_group_def Let_def app_package_metric_row)
  from k have "Some k \<in> package ` set ?f"
    by (simp add: set_group_keys)
  then have present: "Some k \<in> package ` set t"
    by (auto simp: apply_filters_def)
  have "card (package_devices ?f k) \<le> card (package_devices t k)"
    by (rule card_mono [OF finite_package_devices package_devices_mono])
  then have "reach m \<le> reach (metric_row (agg_group t k))"
    by (simp add: m reach_metric_row)
  with metric_of_package [OF present] name show ?thesis by blast
qed

theorem filtered_reach_le_unfiltered_witness:
  "(\<lparr>app_package = ''A'', reach = 1, total_time = Fin 1, avg_time_per_session = Fin 1,
      avg_time_per_device = Fin 1\<rparr>
     \<in> set (calculate_app_metrics (apply_filters
         [blank_row\<lparr>package := Some ''A'', partner := Some ''p1'', hardware_id := Some ''d1'',
                    total_time_in_foreground := Some 3600\<rparr>,
          blank_row\<lparr>package := Some ''A'', partner := Some ''p2'', hardware_id := Some ''d2'',
                    total_time_in_foreground := Some 7200\<rparr>] [Some ''p1''] [None])))
   \<and> (\<exists>m0. metric_of (calculate_app_metrics
         [blank_row\<lparr>package := Some ''A'', partner := Some ''p1'', hardware_id := Some ''d1'',
                    total_time_in_foreground := Some 3600\<rparr>,
          blank_row\<lparr>package := Some ''A'', partner := Some ''p2'', hardware_id := Some ''d2'',
                    total_time_in_foreground := Some 7200\<rparr>]) ''A'' m0 \<and> 1 \<le> reach m0)"
proof -
  let ?t = "[blank_row\<lparr>package := Some ''A'', partner := Some ''p1'', hardware_id := Some ''d1'',
                    total_time_in_foreground := Some 3600\<rparr>,
          blank_row\<lparr>package := Some ''A'', partner := Some ''p2'', hardware_id := Some ''d2'',
                    total_time_in_foreground := Some 7200\<rparr>]"
  let ?m = "\<lparr>app_package = ''A'', reach = 1, total_time = Fin 1, avg_time_per_session = Fin 1,
      avg_time_per_device = Fin 1\<rparr>"
  have h: "?m \<in> set (calculate_app_metrics (apply_filters ?t [Some ''p1''] [None]))"
    by code_simp
  from filtered_reach_le_unfiltered [OF h] h show ?thesis by simp
qed


lemma durations_skip_missing:
  assumes "total_time_in_foreground r = None"
  shows "package_durations (xs @ r # ys) p = package_durations (xs @ ys) p"
  using assms by (simp add: package_durations_def List.map_filter_def)

lemma devices_count_row:
  assumes "package r = Some p" and "hardware_id r = Some h"
  shows "package_devices (xs @ r # ys) p = insert h (package_devices (xs @ ys) p)"
  using assms by (auto simp: package_devices_def)


section \<open>\<^verbatim>\<open>fetch_data\<close>: auxiliary facts\<close>

lemma fetch_data_transport:
  assumes "send_query e s d = Inl x"
  shows "fetch_data e ss s d = (None, [St_error_exn x])"
  using assms by (simp add: fetch_data_def try_body_def)

lemma fetch_data_status:
  assumes "send_query e s d = Inr r" and "400 \<le> status_code r \<and> status_code r < 600"
  shows "fetch_data e ss s d =
    (None, (if debug_mode ss = Some True then debug_output r else [])
           @ [St_error_exn (HTTPError (status_code r))])"
  using assms by (simp add: fetch_data_def try_body_def raise_for_status_def)

lemma fetch_data_parse:
  assumes "send_query e s d = Inr r" and "read_csv e (resp_text r) = Inl x"
  shows "\<exists>y. fetch_data e ss s d =
    (None, (if debug_mode ss = Some True then debug_output r else []) @ [St_error_exn y])"
  using assms by (simp add: fetch_data_def try_body_def raise_for_status_def)

lemma fetch_data_success:
  assumes "send_query e s d = Inr r" and "\<not> (400 \<le> status_code r \<and> status_code r < 600)"
    and "read_csv e (resp_text r) = Inr fr"
    and "check_columns (columns fr) (timestamp_cols @ numeric_cols @ string_cols) = Inr ()"
  shows "fetch_data e ss s d =
    (Some (map (convert_row e (columns fr)) (rows fr)),
     if debug_mode ss = Some True then debug_output r else [])"
  using assms by (simp add: fetch_data_def try_body_def raise_for_status_def)

lemma fetch_data_failure:
  assumes "transport_failure e s d \<or> status_failure e s d \<or> parse_failure e s d"
  shows "\<exists>out x. fetch_data e ss s d = (None, out @ [St_error_exn x])"
  using assms
proof (elim disjE)
  assume "transport_failure e s d"
  then obtain x where "send_query e s d = Inl x" by (auto simp: transport_failure_def)
  from fetch_data_transport [OF this, of ss] show ?thesis by (metis append_Nil)
next
  assume "status_failure e s d"
  then obtain r where "send_query e s d = Inr r" "400 \<le> status_code r \<and> status_code r < 600"
    by (auto simp: status_failure_def)
  from fetch_data_status [OF this, of ss] show ?thesis by blast
next
  assume "parse_failure e s d"
  then obtain r x where "send_query e s d = Inr r" "read_csv e (resp_text r) = Inl x"
    by (auto simp: parse_failure_def)
  from fetch_data_parse [OF this, of ss] show ?thesis by blast
qed


section \<open>Claims on \<^verbatim>\<open>fetch_data\<close> and the Load Data button\<close>

text \<open>
  Claim C4. When the request raises, when the response has a status that
  \<^verbatim>\<open>raise_for_status\<close> rejects (400 to 599), or when the parser rejects the body,
  the body of the \<^verbatim>\<open>try\<close> block is left by an exception, and \<^verbatim>\<open>fetch_data\<close>
  returns no table, having shown that exception after whatever the body had shown. The
  exception goes no further: the handler turns it into the returned value.
\<close>

theorem fetch_data_failure_returns_none:
  assumes "transport_failure e s d \<or> status_failure e s d \<or> parse_failure e s d"
  shows "fst (fetch_data e ss s d) = None
         \<and> (\<exists>x. snd (try_body e ss s d) = Inl x
                \<and> snd (fetch_data e ss s d) = fst (try_body e ss s d) @ [St_error_exn x])"
proof -
  from fetch_data_failure [OF assms] obtain out x
    where none: "fetch_data e ss s d = (None, out @ [St_error_exn x])" by blast
  obtain out' res where body: "try_body e ss s d = (out', res)"
    by (cases "try_body e ss s d")
  show ?thesis
  proof (cases res)
    case (Inl y)
    with body show ?thesis by (simp add: fetch_data_def)
  next
    case (Inr t)
    with body none show ?thesis by (simp add: fetch_data_def)
  qed
qed

theorem fetch_data_failure_returns_none_witness:
  "fst (fetch_data (example_env (Inr (example_response 500)) (Inr (example_frame [])))
          example_session ''2024-01-01'' ''2024-01-08'') = None
   \<and> (\<exists>x. snd (try_body (example_env (Inr (example_response 500)) (Inr (example_frame [])))
               example_session ''2024-01-01'' ''2024-01-08'') = Inl x
          \<and> snd (fetch_data (example_env (Inr (example_response 500)) (Inr (example_frame [])))
               example_session ''2024-01-01'' ''2024-01-08'')
              = fst (try_body (example_env (Inr (example_response 500)) (Inr (example_frame [])))
               example_session ''2024-01-01'' ''2024-01-08'') @ [St_error_exn x])"
proof -
  let ?e = "example_env (Inr (example_response 500)) (Inr (example_frame []))"
  have "status_failure ?e ''2024-01-01'' ''2024-01-08''"
    by (simp add: status_failure_def send_query_def example_env_def example_response_def)
  then have "transport_failure ?e ''2024-01-01'' ''2024-01-08''
      \<or> status_failure ?e ''2024-01-01'' ''2024-01-08''
      \<or> parse_failure ?e ''2024-01-01'' ''2024-01-08''"
    by simp
  from fetch_data_failure_returns_none [OF this] show ?thesis .
qed

text \<open>
  Claim C3. When the session holds a table and the fetch fails in one of the three ways,
  the Load Data button leaves the held table as it was (only the loaded flag is cleared),
  shows the caught error and ends with the message that loading failed.
\<close>

theorem failed_fetch_keeps_table:
  assumes "df ss = Some t"
    and "transport_failure e s d \<or> status_failure e s d \<or> parse_failure e s d"
  shows "df (fst (load_data e ss s d)) = Some t
         \<and> fst (load_data e ss s d) = ss\<lparr>data_loaded := False\<rparr>
         \<and> last (snd (load_data e ss s d)) = St_error ''Failed to load data''
         \<and> (\<exists>x. St_error_exn x \<in> set (snd (load_data e ss s d)))"
proof -
  from fetch_data_failure [OF assms(2)] obtain out x
    where "fetch_data e ss s d = (None, out @ [St_error_exn x])" by blast
  then show ?thesis using assms(1) by (auto simp: load_data_def)
qed

theorem failed_fetch_keeps_table_witness:
  "df (fst (load_data (example_env (Inl (RequestException ''unreachable'')) (Inl (ParserError [])))
         (example_session\<lparr>data_loaded := True, df := Some [blank_row]\<rparr>) ''2024-01-01'' ''2024-01-08''))
     = Some [blank_row]
   \<and> last (snd (load_data (example_env (Inl (RequestException ''unreachable'')) (Inl (ParserError [])))
         (example_session\<lparr>data_loaded := True, df := Some [blank_row]\<rparr>) ''2024-01-01'' ''2024-01-08''))
     = St_error ''Failed to load data''"
proof -
  let ?e = "example_env (Inl (RequestException ''unreachable'')) (Inl (ParserError []))"
  let ?ss = "example_session\<lparr>data_loaded := True, df := Some [blank_row]\<rparr>"
  have h1: "df ?ss = Some [blank_row]" by simp
  have "transport_failure ?e ''2024-01-01'' ''2024-01-08''"
    by (simp add: transport_failure_def send_query_def example_env_def)
  then have h2: "transport_failure ?e ''2024-01-01'' ''2024-01-08''
      \<or> status_failure ?e ''2024-01-01'' ''2024-01-08''
      \<or> parse_failure ?e ''2024-01-01'' ''2024-01-08''"
    by simp
  from failed_fetch_keeps_table [OF h1 h2] show ?thesis by blast
qed

text \<open>
  Claim C9. Two fetches in the same environment whose sessions differ only in the debug
  flag return the same table (or both none): the debug output goes to the page only.
\<close>

theorem fetch_data_debug_independent:
  "fst (fetch_data e (ss\<lparr>debug_mode := a\<rparr>) s d) = fst (fetch_data e (ss\<lparr>debug_mode := b\<rparr>) s d)"
  by (simp add: fetch_data_def try_body_def Let_def split: sum.splits prod.splits)

section \<open>Claims on the dashboard\<close>

lemma calculate_app_metrics_Nil: "calculate_app_metrics [] = []"
  by (simp add: calculate_app_metrics_def sort_by_reach_desc_def groupby_agg_def group_keys_def
      List.map_filter_simps)

lemma quick_insights_nonempty:
  assumes "ms \<noteq> []"
  shows "\<exists>top_app most_engaged_app. quick_insights ms = Inr (top_app, most_engaged_app)"
proof -
  have "length (sort_by_avg_time_per_device_desc ms) = length ms"
    by (simp add: sort_by_avg_time_per_device_desc_def)
  with assms have "sort_by_avg_time_per_device_desc ms \<noteq> []"
    by (metis length_0_conv)
  with assms show ?thesis
    by (auto simp: quick_insights_def iloc0_def split: list.splits)
qed

text \<open>
  Claim C8 says that no interaction on a loaded table raises an unhandled fault, also
  when the selection leaves no row. The code does raise: with no partner selected the
  filtered table and the metrics are empty, and \<^verbatim>\<open>app_metrics.iloc[0]\<close> of Quick
  Insights raises IndexError, which nothing catches.
\<close>

theorem dashboard_empty_selection_raises:
  "dashboard \<lparr>data_loaded = True, df = Some t, debug_mode = dm\<rparr> [] selected_brands
     = Inl IndexError"
  by (simp add: dashboard_def apply_filters_def calculate_app_metrics_Nil quick_insights_def
      iloc0_def)


section \<open>Claim on a malformed duration cell\<close>

lemma numeric_field_convert_row:
  assumes "c \<in> set numeric_cols"
  shows "numeric_field c (convert_row e cols row) = to_numeric e (cell_of cols row c)"
  using assms by (auto simp: numeric_cols_def numeric_field_def convert_row_def)

lemma to_numeric_malformed:
  assumes "parse_number e v = None"
  shows "to_numeric e (Txt v) = None"
  using assms by (simp add: to_numeric_def)

lemma split_at_row:
  assumes "i < length t"
  shows "t = take i t @ t ! i # drop (Suc i) t"
  using assms by (rule id_take_nth_drop)

lemma metrics_with_missing_duration:
  assumes "i < length t" and "package (t ! i) = Some p"
    and "total_time_in_foreground (t ! i) = None"
  shows "\<exists>m. metric_of (calculate_app_metrics t) p m
           \<and> total_time m = Fin (round2 (sum_list (package_durations (without_row i t) p) / 3600))
           \<and> avg_time_per_session m =
               (if package_durations (without_row i t) p = [] then NaN
                else Fin (round2 (sum_list (package_durations (without_row i t) p)
                            / of_nat (length (package_durations (without_row i t) p)) / 3600)))
           \<and> (\<forall>h. hardware_id (t ! i) = Some h \<longrightarrow>
                 h \<in> package_devices t p
                 \<and> reach m = card (insert h (package_devices (without_row i t) p)))"
proof -
  let ?m = "metric_row (agg_group t p)"
  have present: "Some p \<in> package ` set t"
    using assms(1,2) by (metis image_eqI nth_mem)
  have "package_durations (take i t @ t ! i # drop (Suc i) t) p = package_durations (without_row i t) p"
    unfolding without_row_def by (rule durations_skip_missing [OF assms(3)])
  then have dur: "package_durations t p = package_durations (without_row i t) p"
    using split_at_row [OF assms(1)] by simp
  have dev: "package_devices t p = insert h (package_devices (without_row i t) p)"
    if "hardware_id (t ! i) = Some h" for h
  proof -
    have "package_devices (take i t @ t ! i # drop (Suc i) t) p
            = insert h (package_devices (without_row i t) p)"
      unfolding without_row_def by (rule devices_count_row [OF assms(2) that])
    then show ?thesis using split_at_row [OF assms(1)] by simp
  qed
  have "metric_of (calculate_app_metrics t) p ?m"
    by (rule metric_of_package [OF present])
  moreover have "total_time ?m
      = Fin (round2 (sum_list (package_durations (without_row i t) p) / 3600))"
    by (simp add: total_time_metric_row dur)
  moreover have "avg_time_per_session ?m =
               (if package_durations (without_row i t) p = [] then NaN
                else Fin (round2 (sum_list (package_durations (without_row i t) p)
                            / of_nat (length (package_durations (without_row i t) p)) / 3600)))"
    by (simp add: avg_session_metric_row dur)
  moreover have "\<forall>h. hardware_id (t ! i) = Some h \<longrightarrow>
                 h \<in> package_devices t p
                 \<and> reach ?m = card (insert h (package_devices (without_row i t) p))"
    using dev by (simp add: reach_metric_row)
  ultimately show ?thesis by blast
qed

text \<open>
  Claim C5. Let the fetch succeed (request, status, parser, columns) and let row \<open>i\<close> of
  the parsed frame have, in one of the three duration columns, a text that does not parse
  as a number. Then \<^verbatim>\<open>fetch_data\<close> returns a table with as many rows as the frame, its
  row \<open>i\<close> is the conversion of the frame's row \<open>i\<close>, and that duration is missing there.
  When the missing duration is the foreground time and the row has a package, the
  package's total time and time per session are those computed from the other rows of the
  table, while a device id of the row is counted in the package's reach.
\<close>

theorem malformed_duration_row_retained:
  assumes "send_query e s d = Inr r"
    and "\<not> (400 \<le> status_code r \<and> status_code r < 600)"
    and "read_csv e (resp_text r) = Inr fr"
    and "check_columns (columns fr) (timestamp_cols @ numeric_cols @ string_cols) = Inr ()"
    and "i < length (rows fr)"
    and "c \<in> set numeric_cols"
    and "cell_of (columns fr) (rows fr ! i) c = Txt v"
    and "parse_number e v = None"
  shows "\<exists>t. fst (fetch_data e ss s d) = Some t
           \<and> length t = length (rows fr)
           \<and> t ! i = convert_row e (columns fr) (rows fr ! i)
           \<and> numeric_field c (t ! i) = None
           \<and> (\<forall>p. package (t ! i) = Some p \<and> total_time_in_foreground (t ! i) = None \<longrightarrow>
                (\<exists>m. metric_of (calculate_app_metrics t) p m
                   \<and> total_time m
                       = Fin (round2 (sum_list (package_durations (without_row i t) p) / 3600))
                   \<and> avg_time_per_session m =
                       (if package_durations (without_row i t) p = [] then NaN
                        else Fin (round2 (sum_list (package_durations (without_row i t) p)
                               / of_nat (length (package_durations (without_row i t) p)) / 3600)))
                   \<and> (\<forall>h. hardware_id (t ! i) = Some h \<longrightarrow>
                         h \<in> package_devices t p
                         \<and> reach m = card (insert h (package_devices (without_row i t) p)))))"
proof -
  let ?t = "map (convert_row e (columns fr)) (rows fr)"
  have "fst (fetch_data e ss s d) = Some ?t"
    by (simp add: fetch_data_success [OF assms(1-4)])
  moreover have len: "length ?t = length (rows fr)" by simp
  moreover have row: "?t ! i = convert_row e (columns fr) (rows fr ! i)"
    using assms(5) by simp
  moreover have "numeric_field c (?t ! i) = None"
    unfolding row numeric_field_convert_row [OF assms(6)] assms(7)
    by (rule to_numeric_malformed [OF assms(8)])
  moreover have "\<forall>p. package (?t ! i) = Some p \<and> total_time_in_foreground (?t ! i) = None \<longrightarrow>
                (\<exists>m. metric_of (calculate_app_metrics ?t) p m
                   \<and> total_time m
                       = Fin (round2 (sum_list (package_durations (without_row i ?t) p) / 3600))
                   \<and> avg_time_per_session m =
                       (if package_durations (without_row i ?t) p = [] then NaN
                        else Fin (round2 (sum_list (package_durations (without_row i ?t) p)
                               / of_nat (length (package_durations (without_row i ?t) p)) / 3600)))
                   \<and> (\<forall>h. hardware_id (?t ! i) = Some h \<longrightarrow>
                         h \<in> package_devices ?t p
                         \<and> reach m = card (insert h (package_devices (without_row i ?t) p))))"
  proof (intro allI impI)
    fix p
    assume "package (?t ! i) = Some p \<and> total_time_in_foreground (?t ! i) = None"
    then have a: "package (?t ! i) = Some p" and b: "total_time_in_foreground (?t ! i) = None"
      by blast+
    have il: "i < length ?t" using assms(5) by simp
    show "\<exists>m. metric_of (calculate_app_metrics ?t) p m
                   \<and> total_time m
                       = Fin (round2 (sum_list (package_durations (without_row i ?t) p) / 3600))
                   \<and> avg_time_per_session m =
                       (if package_durations (without_row i ?t) p = [] then NaN
                        else Fin (round2 (sum_list (package_durations (without_row i ?t) p)
                               / of_nat (length (package_durations (without_row i ?t) p)) / 3600)))
                   \<and> (\<forall>h. hardware_id (?t ! i) = Some h \<longrightarrow>
                         h \<in> package_devices ?t p
                         \<and> reach m = card (insert h (package_devices (without_row i ?t) p)))"
      by (rule metrics_with_missing_duration [OF il a b])
  qed
  ultimately show ?thesis by blast
qed


lemma round2_zero: "round2 0 = 0"
  by (simp add: round2_def round_half_even_def)

theorem malformed_duration_row_retained_witness:
  "\<exists>t. fst (fetch_data (example_env (Inr (example_response 200))
                          (Inr (example_frame [example_cells])))
             example_session ''2024-01-01'' ''2024-01-08'') = Some t
     \<and> length t = 1
     \<and> package (t ! 0) = Some ''A''
     \<and> hardware_id (t ! 0) = Some ''d1''
     \<and> total_time_in_foreground (t ! 0) = None
     \<and> (\<exists>m. metric_of (calculate_app_metrics t) ''A'' m
            \<and> total_time m = Fin 0 \<and> avg_time_per_session m = NaN \<and> reach m = 1)"
proof -
  let ?fr = "example_frame [example_cells]"
  let ?e = "example_env (Inr (example_response 200)) (Inr ?fr)"
  let ?c = "''total_time_in_foreground''"
  have h1: "send_query ?e ''2024-01-01'' ''2024-01-08'' = Inr (example_response 200)"
    by (simp add: send_query_def example_env_def)
  have h2: "\<not> (400 \<le> status_code (example_response 200)
               \<and> status_code (example_response 200) < 600)"
    by (simp add: example_response_def)
  have h3: "read_csv ?e (resp_text (example_response 200)) = Inr ?fr"
    by (simp add: example_env_def)
  have h4: "check_columns (columns ?fr) (timestamp_cols @ numeric_cols @ string_cols) = Inr ()"
    by (simp add: example_frame_def example_columns_def timestamp_cols_def numeric_cols_def
        string_cols_def)
  have h5: "0 < length (rows ?fr)"
    by (simp add: example_frame_def)
  have h6: "?c \<in> set numeric_cols"
    by (simp add: numeric_cols_def)
  have h7: "cell_of (columns ?fr) (rows ?fr ! 0) ?c = Txt ''abc''"
    by (simp add: example_frame_def example_columns_def example_cells_def cell_of_def)
  have h8: "parse_number ?e ''abc'' = None"
    by (simp add: example_env_def)
  from malformed_duration_row_retained [OF h1 h2 h3 h4 h5 h6 h7 h8, of example_session]
  obtain t where
      t: "fst (fetch_data ?e example_session ''2024-01-01'' ''2024-01-08'') = Some t"
    and len: "length t = length (rows ?fr)"
    and row: "t ! 0 = convert_row ?e (columns ?fr) (rows ?fr ! 0)"
    and none: "numeric_field ?c (t ! 0) = None"
    and agg: "\<forall>p. package (t ! 0) = Some p \<and> total_time_in_foreground (t ! 0) = None \<longrightarrow>
                (\<exists>m. metric_of (calculate_app_metrics t) p m
                   \<and> total_time m
                       = Fin (round2 (sum_list (package_durations (without_row 0 t) p) / 3600))
                   \<and> avg_time_per_session m =
                       (if package_durations (without_row 0 t) p = [] then NaN
                        else Fin (round2 (sum_list (package_durations (without_row 0 t) p)
                               / of_nat (length (package_durations (without_row 0 t) p)) / 3600)))
                   \<and> (\<forall>h. hardware_id (t ! 0) = Some h \<longrightarrow>
                         h \<in> package_devices t p
                         \<and> reach m = card (insert h (package_devices (without_row 0 t) p))))"
    by blast
  have len1: "length t = 1"
    using len by (simp add: example_frame_def)
  have pkg: "package (t ! 0) = Some ''A''"
    unfolding row
    by (simp add: convert_row_def example_frame_def example_columns_def example_cells_def
        cell_of_def example_env_def)
  have hw: "hardware_id (t ! 0) = Some ''d1''"
    unfolding row
    by (simp add: convert_row_def example_frame_def example_columns_def example_cells_def
        cell_of_def example_env_def)
  have dur: "total_time_in_foreground (t ! 0) = None"
    using none by (simp add: numeric_field_def)
  have rest: "without_row 0 t = []"
    using len1 by (simp add: without_row_def)
  from agg pkg dur obtain m where
      m: "metric_of (calculate_app_metrics t) ''A'' m"
    and tt: "total_time m
        = Fin (round2 (sum_list (package_durations (without_row 0 t) ''A'') / 3600))"
    and av: "avg_time_per_session m =
        (if package_durations (without_row 0 t) ''A'' = [] then NaN
         else Fin (round2 (sum_list (package_durations (without_row 0 t) ''A'')
                / of_nat (length (package_durations (without_row 0 t) ''A'')) / 3600)))"
    and rc: "\<forall>h. hardware_id (t ! 0) = Some h \<longrightarrow>
               h \<in> package_devices t ''A''
               \<and> reach m = card (insert h (package_devices (without_row 0 t) ''A''))"
    by blast
  have empty_dur: "package_durations [] ''A'' = []"
    by (simp add: package_durations_def List.map_filter_simps)
  have empty_dev: "package_devices [] ''A'' = {}"
    by (simp add: package_devices_def)
  have "total_time m = Fin 0"
    using tt by (simp add: rest empty_dur round2_zero)
  moreover have "avg_time_per_session m = NaN"
    using av by (simp add: rest empty_dur)
  moreover have "reach m = 1"
    using rc hw by (simp add: rest empty_dev)
  ultimately show ?thesis using t len1 pkg hw dur m by blast
qed

section \<open>Claim on an empty result\<close>




end
